theory Spec2Isabelle
  imports Main "HOL-Library.Sublist" "HOL-Library.Monad_Syntax"
begin

section \<open>The report store of src/App.tsx\<close>

text \<open>
  The component \<open>App\<close> of \<^verbatim>\<open>src/App.tsx\<close> (lines 73-379) keeps the list of civic
  reports in React state and mirrors it into AsyncStorage under one key. The handlers
  are modelled as functions from the component state to the component state. What the
  environment decides is an argument of the handler: the outcome of the AsyncStorage
  promise, the clock, the JSON codec and the button the user presses in a dialog.

  JavaScript strings are modelled as \<^typ>\<open>string\<close>, every character one code unit below
  256. Coordinates are JavaScript numbers; no handler computes with them, so their type
  is the parameter \<open>'n\<close>.
\<close>

subsection \<open>Data\<close>

text \<open>The object literal \<^verbatim>\<open>{ latitude, longitude }\<close> built by \<^verbatim>\<open>handleGetLocation\<close>.\<close>

record 'n coords =
  latitude :: 'n
  longitude :: 'n

text \<open>
  The object literal \<^verbatim>\<open>newReport\<close> of \<^verbatim>\<open>handleSubmit\<close> (lines 153-161). The field
  \<^verbatim>\<open>id\<close> is named \<open>id_r\<close>, since \<open>id\<close> is the identity function of HOL. Reports read
  back by \<^verbatim>\<open>JSON.parse\<close> are not validated: \<^verbatim>\<open>status\<close> may be missing or \<^verbatim>\<open>null\<close>
  (both \<open>None\<close>) or any string, and \<^verbatim>\<open>location\<close> may be \<^verbatim>\<open>null\<close>.
\<close>

record 'n report =
  id_r :: string
  photoUri :: string
  location :: "'n coords option"
  description :: string
  createdAt :: string
  status :: "string option"
  department :: string

text \<open>The titles of the dialogs opened with \<^verbatim>\<open>Alert.alert\<close>, and the two console warnings.\<close>

datatype alert = Incomplete | Submitted | DeleteReport | Assigned | ClearAll

datatype warning = FailedToLoad | FailedToSave

text \<open>An AsyncStorage call returns a promise, which resolves or rejects.\<close>

datatype io = Resolves | Rejects

text \<open>The button pressed in a two-button confirmation dialog.\<close>

datatype button = Cancel | Destructive

text \<open>
  The seven \<^verbatim>\<open>useState\<close> cells of the component (lines 74-80), the key-value store
  behind AsyncStorage, and the two output channels: the dialogs shown and the console.
  The cells \<^verbatim>\<open>photoUri\<close>, \<^verbatim>\<open>location\<close>, \<^verbatim>\<open>description\<close> and \<^verbatim>\<open>filter\<close> carry the
  suffix \<open>_st\<close>: the first three are field names of a report, the last is a HOL constant.
\<close>

record 'n app_state =
  photoUri_st :: "string option"
  location_st :: "'n coords option"
  description_st :: string
  reports :: "'n report list"
  loading :: bool
  mode :: string
  filter_st :: string
  storage :: "string \<rightharpoonup> string"
  alerts :: "alert list"
  console :: "warning list"

definition REPORTS_KEY :: string where
  "REPORTS_KEY = ''CIVIC_REPORTS''"

text \<open>The initial values of the \<^verbatim>\<open>useState\<close> cells, on a device that has stored nothing.\<close>

definition initial_state :: "'n app_state" where
  "initial_state =
     \<lparr>photoUri_st = None, location_st = None, description_st = [], reports = [],
      loading = False, mode = ''citizen'', filter_st = ''All'',
      storage = Map.empty, alerts = [], console = []\<rparr>"

subsection \<open>JavaScript built-ins the handlers use\<close>

text \<open>
  \<^verbatim>\<open>String.prototype.trim\<close> removes white space and line terminators at both ends. Of
  the code units below 256 these are TAB, LF, VT, FF, CR, SP and NBSP.
\<close>

definition is_ws :: "char \<Rightarrow> bool" where
  "is_ws c = (c = CHR 0x09 \<or> c = CHR 0x0A \<or> c = CHR 0x0B \<or> c = CHR 0x0C
      \<or> c = CHR 0x0D \<or> c = CHR 0x20 \<or> c = CHR 0xA0)"

definition trim :: "string \<Rightarrow> string" where
  "trim s = rev (dropWhile is_ws (rev (dropWhile is_ws s)))"

text \<open>
  \<^verbatim>\<open>Number.prototype.toString\<close> on an integer below \<open>10^21\<close> in absolute value, which
  every value of \<^verbatim>\<open>Date.now()\<close> is: the decimal digits, after a minus sign when negative.
\<close>

fun digits :: "nat \<Rightarrow> string" where
  "digits n = (if n < 10 then [''0123456789'' ! n]
     else digits (n div 10) @ [''0123456789'' ! (n mod 10)])"

declare digits.simps [simp del]

definition toString :: "int \<Rightarrow> string" where
  "toString i = (if i < 0 then CHR ''-'' # digits (nat (- i)) else digits (nat i))"

text \<open>\<^verbatim>\<open>Array.prototype.indexOf\<close>: the first index holding the value, or \<open>-1\<close>.\<close>

fun indexOf :: "'a list \<Rightarrow> 'a \<Rightarrow> int" where
  "indexOf [] x = - 1"
| "indexOf (y # ys) x =
     (if y = x then 0 else (let i = indexOf ys x in if i < 0 then - 1 else i + 1))"

text \<open>An array read \<^verbatim>\<open>xs[k]\<close>: \<^verbatim>\<open>undefined\<close> (\<open>None\<close>) outside the array.\<close>

definition at_index :: "'a list \<Rightarrow> int \<Rightarrow> 'a option" where
  "at_index xs k = (if 0 \<le> k \<and> k < int (length xs) then Some (xs ! nat k) else None)"

subsection \<open>Persistence: \<^verbatim>\<open>loadReports\<close> and \<^verbatim>\<open>saveReports\<close>\<close>

text \<open>
  Lines 86-93. \<^verbatim>\<open>getItem\<close> resolves to the stored string or to \<^verbatim>\<open>null\<close>; \<^verbatim>\<open>if (data)\<close>
  is false for \<^verbatim>\<open>null\<close> and for the empty string. \<^verbatim>\<open>JSON.parse\<close> is the argument
  \<open>parse\<close>, \<open>None\<close> where it throws. A rejected promise and a thrown parse error are
  caught and logged.
\<close>

definition loadReports ::
  "(string \<Rightarrow> 'n report list option) \<Rightarrow> io \<Rightarrow> 'n app_state \<Rightarrow> 'n app_state" where
  "loadReports parse r s =
     (case r of
        Rejects \<Rightarrow> s\<lparr>console := console s @ [FailedToLoad]\<rparr>
      | Resolves \<Rightarrow>
          (case storage s REPORTS_KEY of
             None \<Rightarrow> s
           | Some data \<Rightarrow>
               if data = [] then s
               else (case parse data of
                       None \<Rightarrow> s\<lparr>console := console s @ [FailedToLoad]\<rparr>
                     | Some rs \<Rightarrow> s\<lparr>reports := rs\<rparr>)))"

text \<open>
  Lines 95-102. \<^verbatim>\<open>setReports(newReports)\<close> runs first; then the list is serialised
  (\<^verbatim>\<open>JSON.stringify\<close> is the argument \<open>stringify\<close>) and written. A rejected write is
  caught and logged; the store then keeps what it held.
\<close>

definition saveReports ::
  "('n report list \<Rightarrow> string) \<Rightarrow> io \<Rightarrow> 'n report list \<Rightarrow> 'n app_state \<Rightarrow> 'n app_state" where
  "saveReports stringify w newReports s =
     (let s1 = s\<lparr>reports := newReports\<rparr> in
      case w of
        Resolves \<Rightarrow> s1\<lparr>storage := (storage s1)(REPORTS_KEY \<mapsto> stringify newReports)\<rparr>
      | Rejects \<Rightarrow> s1\<lparr>console := console s1 @ [FailedToSave]\<rparr>)"

subsection \<open>The handlers\<close>

text \<open>
  Lines 148-168. The guard \<^verbatim>\<open>!photoUri || !location || !description.trim()\<close> holds when
  the photo is \<^verbatim>\<open>null\<close> or empty, the location is \<^verbatim>\<open>null\<close>, or the description is
  blank. \<open>now\<close> is \<^verbatim>\<open>Date.now()\<close> and \<open>stamp\<close> is \<^verbatim>\<open>new Date().toISOString()\<close>.
\<close>

definition handleSubmit ::
  "('n report list \<Rightarrow> string) \<Rightarrow> int \<Rightarrow> string \<Rightarrow> io \<Rightarrow> 'n app_state \<Rightarrow> 'n app_state" where
  "handleSubmit stringify now stamp w s =
     (case (photoUri_st s, location_st s) of
        (Some uri, Some loc) \<Rightarrow>
          if uri = [] \<or> trim (description_st s) = []
          then s\<lparr>alerts := alerts s @ [Incomplete]\<rparr>
          else
            (let newReport =
                   \<lparr>id_r = toString now, photoUri = uri, location = Some loc,
                    description = description_st s, createdAt = stamp,
                    status = Some ''Reported'', department = ''Unassigned''\<rparr>;
                 newReports = newReport # reports s;
                 s1 = saveReports stringify w newReports s
             in s1\<lparr>photoUri_st := None, location_st := None, description_st := [],
                   alerts := alerts s1 @ [Submitted]\<rparr>)
      | _ \<Rightarrow> s\<lparr>alerts := alerts s @ [Incomplete]\<rparr>)"

text \<open>Line 171: the array \<^verbatim>\<open>order\<close> of \<^verbatim>\<open>advanceStatus\<close>.\<close>

definition order_list :: "string list" where
  "order_list = [''Reported'', ''Acknowledged'', ''In Progress'', ''Resolved'']"

text \<open>\<^verbatim>\<open>r.status || 'Reported'\<close>: the default replaces \<^verbatim>\<open>undefined\<close>, \<^verbatim>\<open>null\<close> and \<^verbatim>\<open>''\<close>.\<close>

definition status_or_Reported :: "('n, 'z) report_scheme \<Rightarrow> string" where
  "status_or_Reported r =
     (case status r of None \<Rightarrow> ''Reported'' | Some st \<Rightarrow> if st = [] then ''Reported'' else st)"

text \<open>Lines 174-176: the body of the branch \<^verbatim>\<open>r.id === id\<close>.\<close>

definition advance :: "'n report \<Rightarrow> 'n report" where
  "advance r =
     (let idx = indexOf order_list (status_or_Reported r);
          next = at_index order_list (min (idx + 1) (int (length order_list) - 1))
      in r\<lparr>status := next\<rparr>)"

text \<open>Lines 170-181.\<close>

definition advanceStatus ::
  "('n report list \<Rightarrow> string) \<Rightarrow> io \<Rightarrow> string \<Rightarrow> 'n app_state \<Rightarrow> 'n app_state" where
  "advanceStatus stringify w i s =
     (let updated = map (\<lambda>r. if id_r r = i then advance r else r) (reports s)
      in saveReports stringify w updated s)"

text \<open>Lines 183-186.\<close>

definition assignDept ::
  "('n report list \<Rightarrow> string) \<Rightarrow> io \<Rightarrow> string \<Rightarrow> string \<Rightarrow> 'n app_state \<Rightarrow> 'n app_state" where
  "assignDept stringify w i dept s =
     (let updated = map (\<lambda>r. if id_r r = i then r\<lparr>department := dept\<rparr> else r) (reports s)
      in saveReports stringify w updated s)"

text \<open>
  Lines 226-236, the \<^verbatim>\<open>onPress\<close> of the Assign button. \<open>prompt\<close> is \<open>None\<close> where
  \<^verbatim>\<open>Alert.prompt\<close> does not exist; otherwise it holds the text the dialog hands to the
  callback (\<open>None\<close> for \<^verbatim>\<open>undefined\<close>, and for a dialog that is cancelled, whose
  callback does not run). The callback assigns \<^verbatim>\<open>txt.trim()\<close> when \<^verbatim>\<open>txt && txt.trim()\<close>
  holds; the fallback assigns \<^verbatim>\<open>'Public Works'\<close> and shows the dialog \<^verbatim>\<open>'Assigned'\<close>.
\<close>

definition onPressAssign ::
  "('n report list \<Rightarrow> string) \<Rightarrow> io \<Rightarrow> string option option \<Rightarrow> string \<Rightarrow>
     'n app_state \<Rightarrow> 'n app_state" where
  "onPressAssign stringify w prompt i s =
     (case prompt of
        Some None \<Rightarrow> s
      | Some (Some txt) \<Rightarrow>
          if txt = [] \<or> trim txt = [] then s else assignDept stringify w i (trim txt) s
      | None \<Rightarrow>
          (let s1 = assignDept stringify w i ''Public Works'' s
           in s1\<lparr>alerts := alerts s1 @ [Assigned]\<rparr>))"

text \<open>
  Lines 188-200. The dialog is shown; the list changes only in the \<^verbatim>\<open>onPress\<close> of
  its destructive button.
\<close>

definition deleteReport ::
  "('n report list \<Rightarrow> string) \<Rightarrow> io \<Rightarrow> button \<Rightarrow> string \<Rightarrow> 'n app_state \<Rightarrow> 'n app_state" where
  "deleteReport stringify w b i s =
     (let s1 = s\<lparr>alerts := alerts s @ [DeleteReport]\<rparr> in
      case b of
        Cancel \<Rightarrow> s1
      | Destructive \<Rightarrow>
          (let updated = filter (\<lambda>r. id_r r \<noteq> i) (reports s1)
           in saveReports stringify w updated s1))"

text \<open>Lines 364-372, the \<^verbatim>\<open>onPress\<close> of the second floating button.\<close>

definition clearAll ::
  "('n report list \<Rightarrow> string) \<Rightarrow> io \<Rightarrow> button \<Rightarrow> 'n app_state \<Rightarrow> 'n app_state" where
  "clearAll stringify w b s =
     (let s1 = s\<lparr>alerts := alerts s @ [ClearAll]\<rparr> in
      case b of
        Cancel \<Rightarrow> s1
      | Destructive \<Rightarrow> saveReports stringify w [] s1)"

text \<open>Line 202. \<^verbatim>\<open>r.status === filter\<close> is false for a missing status.\<close>

definition filteredReports :: "'n app_state \<Rightarrow> 'n report list" where
  "filteredReports s =
     filter (\<lambda>r. if filter_st s = ''All'' then True else status r = Some (filter_st s))
       (reports s)"

text \<open>Line 316: \<^verbatim>\<open>setFilter(f)\<close>, the \<^verbatim>\<open>onPress\<close> of a filter button.\<close>

definition setFilter :: "string \<Rightarrow> 'n app_state \<Rightarrow> 'n app_state" where
  "setFilter f s = s\<lparr>filter_st := f\<rparr>"

subsection \<open>\<^verbatim>\<open>JSON.stringify\<close> and \<^verbatim>\<open>JSON.parse\<close> on a list of reports\<close>
















text \<open>
  \<^verbatim>\<open>JSON.parse\<close>, on the texts that \<^verbatim>\<open>JSON.stringify\<close> writes for a list of reports.
  \<open>expect p s\<close> reads the literal text \<open>p\<close> at the front of \<open>s\<close>; every reader returns
  its value with the rest of the text. A string may hold the escapes above (and the
  escaped slash), and no raw character below \<open>0x20\<close>. A number is the longest run of the
  characters of a JSON numeral, handed to \<open>read\<close>, the reader of finite numbers. The
  list is read with the length of the text as its fuel, one report at most for each
  character. \<^verbatim>\<open>JSON.parse\<close> accepts more texts than these (white space, other
  properties, another order): they are outside this model, which reads them as a failure.
\<close>

fun expect :: "string \<Rightarrow> string \<Rightarrow> string option" where
  "expect [] s = Some s"
| "expect (c # p) [] = None"
| "expect (c # p) (d # s) = (if c = d then expect p s else None)"















section \<open>Properties\<close>

subsection \<open>What \<^verbatim>\<open>saveReports\<close> does to each part of the state\<close>

lemma reports_saveReports: "reports (saveReports stringify w rs s) = rs"
  by (cases w) (simp_all add: saveReports_def)

lemma storage_saveReports:
  "storage (saveReports stringify w rs s) =
     (case w of Resolves \<Rightarrow> (storage s)(REPORTS_KEY \<mapsto> stringify rs) | Rejects \<Rightarrow> storage s)"
  by (cases w) (simp_all add: saveReports_def)

lemma console_saveReports:
  "console (saveReports stringify w rs s) =
     (case w of Resolves \<Rightarrow> console s | Rejects \<Rightarrow> console s @ [FailedToSave])"
  by (cases w) (simp_all add: saveReports_def)

lemma alerts_saveReports: "alerts (saveReports stringify w rs s) = alerts s"
  by (cases w) (simp_all add: saveReports_def)

lemmas saveReports_fields =
  reports_saveReports storage_saveReports console_saveReports alerts_saveReports

lemma reports_assignDept:
  "reports (assignDept stringify w i dept s) =
     map (\<lambda>r. if id_r r = i then r\<lparr>department := dept\<rparr> else r) (reports s)"
  by (simp add: assignDept_def reports_saveReports)

lemma reports_advanceStatus:
  "reports (advanceStatus stringify w i s) =
     map (\<lambda>r. if id_r r = i then advance r else r) (reports s)"
  by (simp add: advanceStatus_def reports_saveReports)

text \<open>The definitions a closed example unfolds.\<close>

lemmas eval_defs = initial_state_def advanceStatus_def saveReports_def advance_def
  status_or_Reported_def order_list_def at_index_def Let_def REPORTS_KEY_def
  handleSubmit_def assignDept_def onPressAssign_def deleteReport_def clearAll_def
  filteredReports_def setFilter_def loadReports_def trim_def is_ws_def

subsection \<open>The frame of \<^verbatim>\<open>advanceStatus\<close>\<close>

text \<open>
  C9. \<^verbatim>\<open>advanceStatus(id)\<close> keeps the length and the order of the list. At every
  position the report keeps its id, photo, location, description, creation time and
  department, so only its status can differ; and a report whose id is not the given
  one is left as it was.
\<close>

theorem advanceStatus_frame:
  "length (reports (advanceStatus stringify w i s)) = length (reports s) \<and>
   (\<forall>k < length (reports s).
      id_r (reports (advanceStatus stringify w i s) ! k) = id_r (reports s ! k) \<and>
      photoUri (reports (advanceStatus stringify w i s) ! k) = photoUri (reports s ! k) \<and>
      location (reports (advanceStatus stringify w i s) ! k) = location (reports s ! k) \<and>
      description (reports (advanceStatus stringify w i s) ! k) = description (reports s ! k) \<and>
      createdAt (reports (advanceStatus stringify w i s) ! k) = createdAt (reports s ! k) \<and>
      department (reports (advanceStatus stringify w i s) ! k) = department (reports s ! k) \<and>
      (id_r (reports s ! k) \<noteq> i \<longrightarrow>
         reports (advanceStatus stringify w i s) ! k = reports s ! k))"
  by (simp add: reports_advanceStatus advance_def Let_def)

text \<open>
  The theorem at a list of two reports, the first of which is advanced: the list that
  results, written out.
\<close>

theorem advanceStatus_frame_witness:
  "length (reports (advanceStatus (\<lambda>_. []) Resolves ''1''
      (initial_state\<lparr>reports :=
        [\<lparr>id_r = ''1'', photoUri = ''p1'', location = Some \<lparr>latitude = 1::int, longitude = 2\<rparr>,
          description = ''pothole'', createdAt = ''t1'', status = Some ''Reported'',
          department = ''Unassigned''\<rparr>,
         \<lparr>id_r = ''2'', photoUri = ''p2'', location = None,
          description = ''lamp'', createdAt = ''t2'', status = Some ''Resolved'',
          department = ''Roads''\<rparr>]\<rparr>))) = 2
   \<and> reports (advanceStatus (\<lambda>_. []) Resolves ''1''
      (initial_state\<lparr>reports :=
        [\<lparr>id_r = ''1'', photoUri = ''p1'', location = Some \<lparr>latitude = 1::int, longitude = 2\<rparr>,
          description = ''pothole'', createdAt = ''t1'', status = Some ''Reported'',
          department = ''Unassigned''\<rparr>,
         \<lparr>id_r = ''2'', photoUri = ''p2'', location = None,
          description = ''lamp'', createdAt = ''t2'', status = Some ''Resolved'',
          department = ''Roads''\<rparr>]\<rparr>)) =
        [\<lparr>id_r = ''1'', photoUri = ''p1'', location = Some \<lparr>latitude = 1::int, longitude = 2\<rparr>,
          description = ''pothole'', createdAt = ''t1'', status = Some ''Acknowledged'',
          department = ''Unassigned''\<rparr>,
         \<lparr>id_r = ''2'', photoUri = ''p2'', location = None,
          description = ''lamp'', createdAt = ''t2'', status = Some ''Resolved'',
          department = ''Roads''\<rparr>]"
  using advanceStatus_frame [of "\<lambda>_. []" Resolves "''1''"
      "initial_state\<lparr>reports :=
        [\<lparr>id_r = ''1'', photoUri = ''p1'', location = Some \<lparr>latitude = 1::int, longitude = 2\<rparr>,
          description = ''pothole'', createdAt = ''t1'', status = Some ''Reported'',
          department = ''Unassigned''\<rparr>,
         \<lparr>id_r = ''2'', photoUri = ''p2'', location = None,
          description = ''lamp'', createdAt = ''t2'', status = Some ''Resolved'',
          department = ''Roads''\<rparr>]\<rparr>"]
  by (simp add: eval_defs)

subsection \<open>The status filter\<close>

text \<open>
  C8. With the selector \<^verbatim>\<open>'All'\<close> the filtered view is the whole list, in the order of
  the store. With any other selector \<open>f\<close> it is exactly the reports whose status is
  \<open>f\<close>, in the order they have in the store: a subsequence of the list. Choosing a
  selector changes neither the list nor what is stored.
\<close>

theorem filteredReports_selector:
  "filteredReports (setFilter ''All'' s) = reports s \<and>
   (f \<noteq> ''All'' \<longrightarrow>
      filteredReports (setFilter f s) = filter (\<lambda>r. status r = Some f) (reports s)) \<and>
   subseq (filteredReports (setFilter f s)) (reports s) \<and>
   reports (setFilter f s) = reports s \<and>
   storage (setFilter f s) = storage s"
  by (simp add: filteredReports_def setFilter_def)

text \<open>
  The theorem at a list of three reports with the selector \<^verbatim>\<open>'Resolved'\<close>: the first
  and the third are kept, in this order.
\<close>

theorem filteredReports_selector_witness:
  "''Resolved'' \<noteq> ''All'' \<and>
   filteredReports (setFilter ''Resolved''
      (initial_state\<lparr>reports :=
        [\<lparr>id_r = ''3'', photoUri = ''p3'', location = None,
          description = ''drain'', createdAt = ''t3'', status = Some ''Resolved'',
          department = ''Water''\<rparr>,
         \<lparr>id_r = ''2'', photoUri = ''p2'', location = Some \<lparr>latitude = 1::int, longitude = 2\<rparr>,
          description = ''lamp'', createdAt = ''t2'', status = None,
          department = ''Unassigned''\<rparr>,
         \<lparr>id_r = ''1'', photoUri = ''p1'', location = None,
          description = ''pothole'', createdAt = ''t1'', status = Some ''Resolved'',
          department = ''Roads''\<rparr>]\<rparr>)) =
        [\<lparr>id_r = ''3'', photoUri = ''p3'', location = None,
          description = ''drain'', createdAt = ''t3'', status = Some ''Resolved'',
          department = ''Water''\<rparr>,
         \<lparr>id_r = ''1'', photoUri = ''p1'', location = None,
          description = ''pothole'', createdAt = ''t1'', status = Some ''Resolved'',
          department = ''Roads''\<rparr>]"
  using filteredReports_selector [of
      "initial_state\<lparr>reports :=
        [\<lparr>id_r = ''3'', photoUri = ''p3'', location = None,
          description = ''drain'', createdAt = ''t3'', status = Some ''Resolved'',
          department = ''Water''\<rparr>,
         \<lparr>id_r = ''2'', photoUri = ''p2'', location = Some \<lparr>latitude = 1::int, longitude = 2\<rparr>,
          description = ''lamp'', createdAt = ''t2'', status = None,
          department = ''Unassigned''\<rparr>,
         \<lparr>id_r = ''1'', photoUri = ''p1'', location = None,
          description = ''pothole'', createdAt = ''t1'', status = Some ''Resolved'',
          department = ''Roads''\<rparr>]\<rparr>" "''Resolved''"]
  by (simp add: initial_state_def)

subsection \<open>Submitting an incomplete form\<close>

text \<open>
  C5. When the photo is missing or empty, the location is missing, or the description
  is blank after trimming, \<^verbatim>\<open>handleSubmit\<close> only shows the dialog \<^verbatim>\<open>'Incomplete'\<close>, the
  validation failure of the component: no report is added, nothing is written to the
  store and nothing is logged.
\<close>

theorem handleSubmit_incomplete:
  assumes "photoUri_st s = None \<or> photoUri_st s = Some [] \<or> location_st s = None
     \<or> trim (description_st s) = []"
  shows "handleSubmit stringify now stamp w s = s\<lparr>alerts := alerts s @ [Incomplete]\<rparr> \<and>
    reports (handleSubmit stringify now stamp w s) = reports s \<and>
    storage (handleSubmit stringify now stamp w s) = storage s \<and>
    console (handleSubmit stringify now stamp w s) = console s"
proof -
  have "handleSubmit stringify now stamp w s = s\<lparr>alerts := alerts s @ [Incomplete]\<rparr>"
    using assms by (auto simp: handleSubmit_def split: option.splits)
  then show ?thesis by simp
qed

text \<open>The theorem at a form with a photo, a location and a description of two spaces.\<close>

theorem handleSubmit_incomplete_witness:
  "trim ''  '' = [] \<and>
   alerts (handleSubmit (\<lambda>_. ''[]'') 1000 ''t'' Resolves
     (initial_state\<lparr>photoUri_st := Some ''p1'',
        location_st := Some \<lparr>latitude = 1::int, longitude = 2\<rparr>,
        description_st := ''  ''\<rparr>)) = [Incomplete] \<and>
   reports (handleSubmit (\<lambda>_. ''[]'') 1000 ''t'' Resolves
     (initial_state\<lparr>photoUri_st := Some ''p1'',
        location_st := Some \<lparr>latitude = 1::int, longitude = 2\<rparr>,
        description_st := ''  ''\<rparr>)) = [] \<and>
   storage (handleSubmit (\<lambda>_. ''[]'') 1000 ''t'' Resolves
     (initial_state\<lparr>photoUri_st := Some ''p1'',
        location_st := Some \<lparr>latitude = 1::int, longitude = 2\<rparr>,
        description_st := ''  ''\<rparr>)) REPORTS_KEY = None"
proof -
  have blank: "trim ''  '' = []"
    by (simp add: trim_def is_ws_def)
  show ?thesis
    using blank handleSubmit_incomplete [of
      "initial_state\<lparr>photoUri_st := Some ''p1'',
        location_st := Some \<lparr>latitude = 1::int, longitude = 2\<rparr>,
        description_st := ''  ''\<rparr>" "\<lambda>_. ''[]''" 1000 "''t''" Resolves]
    by (simp add: initial_state_def)
qed

subsection \<open>The status workflow\<close>

lemma indexOf_order:
  "indexOf order_list ''Reported'' = 0"
  "indexOf order_list ''Acknowledged'' = 1"
  "indexOf order_list ''In Progress'' = 2"
  "indexOf order_list ''Resolved'' = 3"
  by (simp_all add: order_list_def)

lemma status_advance_order:
  assumes "n < 4" and "status r = Some (order_list ! n)"
  shows "status (advance r) = Some (order_list ! min (n + 1) 3)"
proof -
  from assms(1) consider "n = 0" | "n = 1" | "n = 2" | "n = 3" by linarith
  then show ?thesis
  proof cases
    case 1
    with assms(2) have "status_or_Reported r = ''Reported''"
      by (simp add: status_or_Reported_def order_list_def)
    then show ?thesis using 1
      by (simp add: advance_def indexOf_order at_index_def) (simp add: order_list_def)
  next
    case 2
    with assms(2) have "status_or_Reported r = ''Acknowledged''"
      by (simp add: status_or_Reported_def order_list_def)
    then show ?thesis using 2
      by (simp add: advance_def indexOf_order at_index_def) (simp add: order_list_def)
  next
    case 3
    with assms(2) have "status_or_Reported r = ''In Progress''"
      by (simp add: status_or_Reported_def order_list_def)
    then show ?thesis using 3
      by (simp add: advance_def indexOf_order at_index_def) (simp add: order_list_def)
  next
    case 4
    with assms(2) have "status_or_Reported r = ''Resolved''"
      by (simp add: status_or_Reported_def order_list_def)
    then show ?thesis using 4
      by (simp add: advance_def indexOf_order at_index_def) (simp add: order_list_def)
  qed
qed

lemma id_r_advance: "id_r (advance r) = id_r r"
  by (simp add: advance_def Let_def)

text \<open>
  C3. A report of the list whose status is the \<open>n\<close>-th of the four stages has, after
  any number of calls of \<^verbatim>\<open>advanceStatus\<close> on its id, the stage \<open>min (n + calls) 3\<close>,
  whatever the writes to the store did. So each call moves the status one stage forward
  and never back, no stage is skipped, and a report at \<^verbatim>\<open>'Resolved'\<close> stays there.
\<close>

theorem advanceStatus_sequence:
  assumes "k < length (reports s)" and "id_r (reports s ! k) = i"
    and "n < 4" and "status (reports s ! k) = Some (order_list ! n)"
  shows "status (reports (fold (\<lambda>w. advanceStatus stringify w i) ws s) ! k) =
     Some (order_list ! min (n + length ws) 3)"
  using assms
proof (induction ws arbitrary: s n)
  case Nil
  then show ?case by simp
next
  case (Cons w ws)
  let ?s = "advanceStatus stringify w i s"
  have at_k: "reports ?s ! k = advance (reports s ! k)"
    using Cons.prems(1,2) by (simp add: reports_advanceStatus)
  have len: "k < length (reports ?s)"
    using Cons.prems(1) by (simp add: reports_advanceStatus)
  have idk: "id_r (reports ?s ! k) = i"
    using Cons.prems(2) by (simp add: at_k id_r_advance)
  have st: "status (reports ?s ! k) = Some (order_list ! min (n + 1) 3)"
    using Cons.prems(3,4) by (simp add: at_k status_advance_order)
  have "status (reports (fold (\<lambda>w. advanceStatus stringify w i) ws ?s) ! k) =
     Some (order_list ! min (min (n + 1) 3 + length ws) 3)"
    by (rule Cons.IH [OF len idk _ st]) simp
  moreover have "min (min (n + 1) 3 + length ws) 3 = min (n + length (w # ws)) 3"
    by simp
  ultimately show ?case by simp
qed

text \<open>
  The theorem at a report with status \<^verbatim>\<open>'Reported'\<close>, after zero to five calls: the
  statuses are Reported, Acknowledged, In Progress, Resolved, Resolved, Resolved.
\<close>

theorem advanceStatus_sequence_witness:
  "map (\<lambda>ws. status (reports (fold (\<lambda>w. advanceStatus (\<lambda>_. ''[]'') w ''1'') ws
      (initial_state\<lparr>reports :=
        [\<lparr>id_r = ''1'', photoUri = ''p1'', location = Some \<lparr>latitude = 1::int, longitude = 2\<rparr>,
          description = ''pothole'', createdAt = ''t1'', status = Some ''Reported'',
          department = ''Unassigned''\<rparr>]\<rparr>)) ! 0))
     [[], [Resolves], [Resolves, Rejects], [Resolves, Rejects, Resolves],
      [Resolves, Rejects, Resolves, Resolves],
      [Resolves, Rejects, Resolves, Resolves, Resolves]] =
   [Some ''Reported'', Some ''Acknowledged'', Some ''In Progress'', Some ''Resolved'',
    Some ''Resolved'', Some ''Resolved'']"
  using advanceStatus_sequence [of 0
      "initial_state\<lparr>reports :=
        [\<lparr>id_r = ''1'', photoUri = ''p1'', location = Some \<lparr>latitude = 1::int, longitude = 2\<rparr>,
          description = ''pothole'', createdAt = ''t1'', status = Some ''Reported'',
          department = ''Unassigned''\<rparr>]\<rparr>" "''1''" 0 "\<lambda>_. ''[]''"]
  by (simp add: initial_state_def order_list_def)

subsection \<open>A status outside the four stages\<close>

lemma indexOf_absent: "x \<notin> set xs \<Longrightarrow> indexOf xs x = - 1"
  by (induction xs) (auto simp: Let_def)

text \<open>
  C10, as amended. \<^verbatim>\<open>advanceStatus\<close> on a report whose status is missing, \<^verbatim>\<open>null\<close> or
  the empty string treats it as \<^verbatim>\<open>'Reported'\<close> and sets it to \<^verbatim>\<open>'Acknowledged'\<close>; on a
  report whose status is a non-empty string outside the four stages it sets the status
  to \<^verbatim>\<open>'Reported'\<close>.
\<close>

theorem advanceStatus_unvalidated_status:
  assumes "k < length (reports s)" and "id_r (reports s ! k) = i"
  shows "(status (reports s ! k) = None \<or> status (reports s ! k) = Some [] \<longrightarrow>
      status (reports (advanceStatus stringify w i s) ! k) = Some ''Acknowledged'') \<and>
    (\<forall>st. status (reports s ! k) = Some st \<and> st \<noteq> [] \<and> st \<notin> set order_list \<longrightarrow>
      status (reports (advanceStatus stringify w i s) ! k) = Some ''Reported'')"
proof -
  have at_k: "reports (advanceStatus stringify w i s) ! k = advance (reports s ! k)"
    using assms by (simp add: reports_advanceStatus)
  have absent: "status_or_Reported (reports s ! k) = ''Reported''"
    if "status (reports s ! k) = None \<or> status (reports s ! k) = Some []"
    using that by (auto simp: status_or_Reported_def)
  have unknown: "indexOf order_list (status_or_Reported (reports s ! k)) = - 1"
    if "status (reports s ! k) = Some st" and "st \<noteq> []" and "st \<notin> set order_list" for st
    using that by (simp add: status_or_Reported_def indexOf_absent)
  show ?thesis
    using absent unknown
    by (auto simp: at_k advance_def indexOf_order at_index_def) (simp_all add: order_list_def)
qed

text \<open>The theorem at a report with the status \<^verbatim>\<open>'Done'\<close> and at one with no status.\<close>

theorem advanceStatus_unvalidated_status_witness:
  "''Done'' \<notin> set order_list \<and>
   map status (reports (advanceStatus (\<lambda>_. ''[]'') Resolves ''1''
      (initial_state\<lparr>reports :=
        [\<lparr>id_r = ''1'', photoUri = ''p1'', location = Some \<lparr>latitude = 1::int, longitude = 2\<rparr>,
          description = ''pothole'', createdAt = ''t1'', status = Some ''Done'',
          department = ''Unassigned''\<rparr>]\<rparr>))) = [Some ''Reported''] \<and>
   map status (reports (advanceStatus (\<lambda>_. ''[]'') Resolves ''1''
      (initial_state\<lparr>reports :=
        [\<lparr>id_r = ''1'', photoUri = ''p1'', location = Some \<lparr>latitude = 1::int, longitude = 2\<rparr>,
          description = ''pothole'', createdAt = ''t1'', status = None,
          department = ''Unassigned''\<rparr>]\<rparr>))) = [Some ''Acknowledged'']"
  using advanceStatus_unvalidated_status [of 0
      "initial_state\<lparr>reports :=
        [\<lparr>id_r = ''1'', photoUri = ''p1'', location = Some \<lparr>latitude = 1::int, longitude = 2\<rparr>,
          description = ''pothole'', createdAt = ''t1'', status = Some ''Done'',
          department = ''Unassigned''\<rparr>]\<rparr>" "''1''" "\<lambda>_. ''[]''" Resolves]
    advanceStatus_unvalidated_status [of 0
      "initial_state\<lparr>reports :=
        [\<lparr>id_r = ''1'', photoUri = ''p1'', location = Some \<lparr>latitude = 1::int, longitude = 2\<rparr>,
          description = ''pothole'', createdAt = ''t1'', status = None,
          department = ''Unassigned''\<rparr>]\<rparr>" "''1''" "\<lambda>_. ''[]''" Resolves]
  by (simp add: initial_state_def order_list_def reports_advanceStatus)

text \<open>
  C10 as stated fails at the empty string: it is a string outside the four stages, and
  \<^verbatim>\<open>'' || 'Reported'\<close> is \<^verbatim>\<open>'Reported'\<close>, so the report moves to \<^verbatim>\<open>'Acknowledged'\<close> and
  not to \<^verbatim>\<open>'Reported'\<close>.
\<close>

theorem advanceStatus_empty_status_counterexample:
  "[] \<notin> set order_list \<and>
   status (reports (advanceStatus (\<lambda>_. ''[]'') Resolves ''1''
      (initial_state\<lparr>reports :=
        [\<lparr>id_r = ''1'', photoUri = ''p1'', location = Some \<lparr>latitude = 1::int, longitude = 2\<rparr>,
          description = ''pothole'', createdAt = ''t1'', status = Some [],
          department = ''Unassigned''\<rparr>]\<rparr>)) ! 0) = Some ''Acknowledged'' \<and>
   Some ''Acknowledged'' \<noteq> Some ''Reported''"
  by (simp add: eval_defs)

subsection \<open>A write that is rejected\<close>

text \<open>
  C1, as amended. Every operation that changes the list hands the new list to
  \<^verbatim>\<open>saveReports\<close>, which sets the in-memory list before it writes. When the write is
  rejected, the state each operation leaves is the state before it with the in-memory
  list replaced by the new list (the submitted report in front, the advanced or
  reassigned reports in place, the list without the deleted report, the empty list),
  the warning added to the console and the dialogs of a successful run: what is stored
  keeps its previous value, the list equals what a successful write leaves, and no
  error reaches the caller.
\<close>

theorem rejected_write_publishes_new_list:
  "saveReports stringify Rejects rs s =
     s\<lparr>reports := rs, console := console s @ [FailedToSave]\<rparr> \<and>
   (photoUri_st s = Some uri \<and> uri \<noteq> [] \<and> location_st s = Some loc \<and>
    trim (description_st s) \<noteq> [] \<longrightarrow>
      handleSubmit stringify now stamp Rejects s =
        s\<lparr>photoUri_st := None, location_st := None, description_st := [],
          reports :=
            \<lparr>id_r = toString now, photoUri = uri, location = Some loc,
             description = description_st s, createdAt = stamp,
             status = Some ''Reported'', department = ''Unassigned''\<rparr> # reports s,
          alerts := alerts s @ [Submitted],
          console := console s @ [FailedToSave]\<rparr>) \<and>
   advanceStatus stringify Rejects i s =
     s\<lparr>reports := map (\<lambda>r. if id_r r = i then advance r else r) (reports s),
       console := console s @ [FailedToSave]\<rparr> \<and>
   assignDept stringify Rejects i dept s =
     s\<lparr>reports := map (\<lambda>r. if id_r r = i then r\<lparr>department := dept\<rparr> else r) (reports s),
       console := console s @ [FailedToSave]\<rparr> \<and>
   deleteReport stringify Rejects Destructive i s =
     s\<lparr>reports := filter (\<lambda>r. id_r r \<noteq> i) (reports s),
       alerts := alerts s @ [DeleteReport],
       console := console s @ [FailedToSave]\<rparr> \<and>
   clearAll stringify Rejects Destructive s =
     s\<lparr>reports := [], alerts := alerts s @ [ClearAll],
       console := console s @ [FailedToSave]\<rparr> \<and>
   reports (handleSubmit stringify now stamp Rejects s) =
     reports (handleSubmit stringify now stamp Resolves s) \<and>
   alerts (handleSubmit stringify now stamp Rejects s) =
     alerts (handleSubmit stringify now stamp Resolves s) \<and>
   storage (handleSubmit stringify now stamp Rejects s) = storage s \<and>
   reports (advanceStatus stringify Rejects i s) = reports (advanceStatus stringify Resolves i s) \<and>
   storage (advanceStatus stringify Rejects i s) = storage s \<and>
   reports (assignDept stringify Rejects i dept s) =
     reports (assignDept stringify Resolves i dept s) \<and>
   storage (assignDept stringify Rejects i dept s) = storage s \<and>
   reports (deleteReport stringify Rejects b i s) = reports (deleteReport stringify Resolves b i s) \<and>
   storage (deleteReport stringify Rejects b i s) = storage s \<and>
   reports (clearAll stringify Rejects b s) = reports (clearAll stringify Resolves b s) \<and>
   storage (clearAll stringify Rejects b s) = storage s"
proof -
  have save: "saveReports stringify Rejects rs s =
      s\<lparr>reports := rs, console := console s @ [FailedToSave]\<rparr>"
    by (simp add: saveReports_def)
  have submit_state: "handleSubmit stringify now stamp Rejects s =
        s\<lparr>photoUri_st := None, location_st := None, description_st := [],
          reports :=
            \<lparr>id_r = toString now, photoUri = uri, location = Some loc,
             description = description_st s, createdAt = stamp,
             status = Some ''Reported'', department = ''Unassigned''\<rparr> # reports s,
          alerts := alerts s @ [Submitted],
          console := console s @ [FailedToSave]\<rparr>"
    if "photoUri_st s = Some uri \<and> uri \<noteq> [] \<and> location_st s = Some loc \<and>
      trim (description_st s) \<noteq> []"
    using that by (simp add: handleSubmit_def saveReports_def)
  have adv_state: "advanceStatus stringify Rejects i s =
     s\<lparr>reports := map (\<lambda>r. if id_r r = i then advance r else r) (reports s),
       console := console s @ [FailedToSave]\<rparr>"
    by (simp add: advanceStatus_def saveReports_def)
  have asg_state: "assignDept stringify Rejects i dept s =
     s\<lparr>reports := map (\<lambda>r. if id_r r = i then r\<lparr>department := dept\<rparr> else r) (reports s),
       console := console s @ [FailedToSave]\<rparr>"
    by (simp add: assignDept_def saveReports_def)
  have del_state: "deleteReport stringify Rejects Destructive i s =
     s\<lparr>reports := filter (\<lambda>r. id_r r \<noteq> i) (reports s),
       alerts := alerts s @ [DeleteReport],
       console := console s @ [FailedToSave]\<rparr>"
    by (simp add: deleteReport_def saveReports_def)
  have clr_state: "clearAll stringify Rejects Destructive s =
     s\<lparr>reports := [], alerts := alerts s @ [ClearAll],
       console := console s @ [FailedToSave]\<rparr>"
    by (simp add: clearAll_def saveReports_def)
  have submit: "reports (handleSubmit stringify now stamp Rejects s) =
       reports (handleSubmit stringify now stamp Resolves s) \<and>
     alerts (handleSubmit stringify now stamp Rejects s) =
       alerts (handleSubmit stringify now stamp Resolves s) \<and>
     storage (handleSubmit stringify now stamp Rejects s) = storage s"
    by (simp add: handleSubmit_def Let_def saveReports_fields split: option.splits)
  have adv: "reports (advanceStatus stringify Rejects i s) =
       reports (advanceStatus stringify Resolves i s) \<and>
     storage (advanceStatus stringify Rejects i s) = storage s"
    by (simp add: advanceStatus_def Let_def saveReports_fields)
  have asg: "reports (assignDept stringify Rejects i dept s) =
       reports (assignDept stringify Resolves i dept s) \<and>
     storage (assignDept stringify Rejects i dept s) = storage s"
    by (simp add: assignDept_def Let_def saveReports_fields)
  have del: "reports (deleteReport stringify Rejects b i s) =
       reports (deleteReport stringify Resolves b i s) \<and>
     storage (deleteReport stringify Rejects b i s) = storage s"
    by (cases b) (simp_all add: deleteReport_def Let_def saveReports_fields)
  have clr: "reports (clearAll stringify Rejects b s) =
       reports (clearAll stringify Resolves b s) \<and>
     storage (clearAll stringify Rejects b s) = storage s"
    by (cases b) (simp_all add: clearAll_def Let_def saveReports_fields)
  from save submit_state adv_state asg_state del_state clr_state submit adv asg del clr
  show ?thesis by blast
qed

text \<open>
  The theorem at a complete form on a fresh state, submitted at time 1000: the list
  holds the new report when the write resolves, and the state after a rejected write is
  the fresh state with that list, the dialog \<^verbatim>\<open>'Submitted'\<close> and the console warning.
\<close>

theorem rejected_write_publishes_new_list_witness:
  "trim ''pothole'' \<noteq> [] \<and>
   reports (handleSubmit (\<lambda>_. ''[]'') 1000 ''t1'' Resolves
     (initial_state\<lparr>photoUri_st := Some ''p1'',
        location_st := Some \<lparr>latitude = 1::int, longitude = 2\<rparr>,
        description_st := ''pothole''\<rparr>)) =
     [\<lparr>id_r = ''1000'', photoUri = ''p1'', location = Some \<lparr>latitude = 1::int, longitude = 2\<rparr>,
       description = ''pothole'', createdAt = ''t1'', status = Some ''Reported'',
       department = ''Unassigned''\<rparr>] \<and>
   handleSubmit (\<lambda>_. ''[]'') 1000 ''t1'' Rejects
     (initial_state\<lparr>photoUri_st := Some ''p1'',
        location_st := Some \<lparr>latitude = 1::int, longitude = 2\<rparr>,
        description_st := ''pothole''\<rparr>) =
     initial_state\<lparr>reports :=
       [\<lparr>id_r = ''1000'', photoUri = ''p1'', location = Some \<lparr>latitude = 1::int, longitude = 2\<rparr>,
         description = ''pothole'', createdAt = ''t1'', status = Some ''Reported'',
         department = ''Unassigned''\<rparr>],
       alerts := [Submitted], console := [FailedToSave]\<rparr>"
proof -
  have ts: "toString 1000 = ''1000''"
    by code_simp
  have tr: "trim ''pothole'' \<noteq> []"
    by (simp add: trim_def is_ws_def)
  show ?thesis
    using tr rejected_write_publishes_new_list [where stringify = "\<lambda>_. ''[]''"
      and s = "initial_state\<lparr>photoUri_st := Some ''p1'',
        location_st := Some \<lparr>latitude = 1::int, longitude = 2\<rparr>,
        description_st := ''pothole''\<rparr>"
      and uri = "''p1''" and loc = "\<lparr>latitude = 1::int, longitude = 2\<rparr>"
      and now = 1000 and stamp = "''t1''"]
    by (simp add: eval_defs ts)
qed

text \<open>
  C1 as stated fails at the same input. The list is empty before the submission; the
  write is rejected; the list then holds the new report, the dialog \<^verbatim>\<open>'Submitted'\<close> is
  shown, and the only trace of the failure is the console warning.
\<close>

theorem rejected_write_counterexample:
  "reports (initial_state\<lparr>photoUri_st := Some ''p1'',
        location_st := Some \<lparr>latitude = 1::int, longitude = 2\<rparr>,
        description_st := ''pothole''\<rparr>) = [] \<and>
   reports (handleSubmit (\<lambda>_. ''[]'') 1000 ''t1'' Rejects
     (initial_state\<lparr>photoUri_st := Some ''p1'',
        location_st := Some \<lparr>latitude = 1::int, longitude = 2\<rparr>,
        description_st := ''pothole''\<rparr>)) =
     [\<lparr>id_r = ''1000'', photoUri = ''p1'', location = Some \<lparr>latitude = 1::int, longitude = 2\<rparr>,
       description = ''pothole'', createdAt = ''t1'', status = Some ''Reported'',
       department = ''Unassigned''\<rparr>] \<and>
   alerts (handleSubmit (\<lambda>_. ''[]'') 1000 ''t1'' Rejects
     (initial_state\<lparr>photoUri_st := Some ''p1'',
        location_st := Some \<lparr>latitude = 1::int, longitude = 2\<rparr>,
        description_st := ''pothole''\<rparr>)) = [Submitted] \<and>
   console (handleSubmit (\<lambda>_. ''[]'') 1000 ''t1'' Rejects
     (initial_state\<lparr>photoUri_st := Some ''p1'',
        location_st := Some \<lparr>latitude = 1::int, longitude = 2\<rparr>,
        description_st := ''pothole''\<rparr>)) = [FailedToSave]"
proof -
  have ts: "toString 1000 = ''1000''"
    by code_simp
  show ?thesis
    by (simp add: eval_defs ts)
qed

subsection \<open>An id that no report has\<close>

lemma map_absent_id:
  "i \<notin> id_r ` set rs \<Longrightarrow> map (\<lambda>r. if id_r r = i then g r else r) rs = rs"
  by (induction rs) auto

lemma filter_absent_id:
  "i \<notin> id_r ` set rs \<Longrightarrow> filter (\<lambda>r. id_r r \<noteq> i) rs = rs"
  by (induction rs) auto

text \<open>
  C4, as amended. For an id that no report of the list has, \<^verbatim>\<open>advanceStatus\<close>,
  \<^verbatim>\<open>assignDept\<close> and the confirmed \<^verbatim>\<open>deleteReport\<close> are exactly a save of the
  unchanged list: the in-memory list stays as it was and no error is signalled; a write
  that resolves stores the serialised in-memory list, and a write that is rejected
  leaves the store alone and logs the warning.
\<close>

theorem absent_id_saves_same_list:
  assumes "i \<notin> id_r ` set (reports s)"
  shows "advanceStatus stringify w i s = saveReports stringify w (reports s) s \<and>
    assignDept stringify w i dept s = saveReports stringify w (reports s) s \<and>
    deleteReport stringify w Destructive i s =
      saveReports stringify w (reports s) (s\<lparr>alerts := alerts s @ [DeleteReport]\<rparr>) \<and>
    saveReports stringify Resolves (reports s) s =
      s\<lparr>storage := (storage s)(REPORTS_KEY \<mapsto> stringify (reports s))\<rparr> \<and>
    saveReports stringify Rejects (reports s) s = s\<lparr>console := console s @ [FailedToSave]\<rparr> \<and>
    reports (advanceStatus stringify w i s) = reports s \<and>
    reports (assignDept stringify w i dept s) = reports s \<and>
    reports (deleteReport stringify w Destructive i s) = reports s"
  using assms
  by (simp add: advanceStatus_def assignDept_def deleteReport_def Let_def map_absent_id
      filter_absent_id reports_saveReports)
    (simp add: saveReports_def)

text \<open>The theorem at a list of one report with id \<^verbatim>\<open>'1'\<close> and the id \<^verbatim>\<open>'zzz'\<close>.\<close>

theorem absent_id_saves_same_list_witness:
  "''zzz'' \<notin> id_r ` set (reports (initial_state\<lparr>reports :=
        [\<lparr>id_r = ''1'', photoUri = ''p1'', location = Some \<lparr>latitude = 1::int, longitude = 2\<rparr>,
          description = ''pothole'', createdAt = ''t1'', status = Some ''Reported'',
          department = ''Unassigned''\<rparr>]\<rparr>)) \<and>
   reports (advanceStatus (\<lambda>_. ''[]'') Resolves ''zzz'' (initial_state\<lparr>reports :=
        [\<lparr>id_r = ''1'', photoUri = ''p1'', location = Some \<lparr>latitude = 1::int, longitude = 2\<rparr>,
          description = ''pothole'', createdAt = ''t1'', status = Some ''Reported'',
          department = ''Unassigned''\<rparr>]\<rparr>)) =
        [\<lparr>id_r = ''1'', photoUri = ''p1'', location = Some \<lparr>latitude = 1::int, longitude = 2\<rparr>,
          description = ''pothole'', createdAt = ''t1'', status = Some ''Reported'',
          department = ''Unassigned''\<rparr>] \<and>
   reports (deleteReport (\<lambda>_. ''[]'') Rejects Destructive ''zzz'' (initial_state\<lparr>reports :=
        [\<lparr>id_r = ''1'', photoUri = ''p1'', location = Some \<lparr>latitude = 1::int, longitude = 2\<rparr>,
          description = ''pothole'', createdAt = ''t1'', status = Some ''Reported'',
          department = ''Unassigned''\<rparr>]\<rparr>)) =
        [\<lparr>id_r = ''1'', photoUri = ''p1'', location = Some \<lparr>latitude = 1::int, longitude = 2\<rparr>,
          description = ''pothole'', createdAt = ''t1'', status = Some ''Reported'',
          department = ''Unassigned''\<rparr>]"
proof -
  have absent: "''zzz'' \<notin> id_r ` set (reports (initial_state\<lparr>reports :=
        [\<lparr>id_r = ''1'', photoUri = ''p1'', location = Some \<lparr>latitude = 1::int, longitude = 2\<rparr>,
          description = ''pothole'', createdAt = ''t1'', status = Some ''Reported'',
          department = ''Unassigned''\<rparr>]\<rparr>))"
    by (simp add: initial_state_def)
  show ?thesis
    using absent absent_id_saves_same_list [OF absent, of "\<lambda>_. ''[]''" Resolves]
      absent_id_saves_same_list [OF absent, of "\<lambda>_. ''[]''" Rejects]
    by (simp add: eval_defs)
qed

text \<open>
  C4 as stated fails at the same input when nothing is stored yet (the state after a
  first submission whose write was rejected): \<^verbatim>\<open>advanceStatus('zzz')\<close> shows no dialog
  and logs nothing, and it writes the list, so the stored entry changes from absent to
  present. The serialiser does not matter here.
\<close>

theorem absent_id_counterexample:
  "''zzz'' \<notin> id_r ` set (reports (initial_state\<lparr>reports :=
        [\<lparr>id_r = ''1'', photoUri = ''p1'', location = Some \<lparr>latitude = 1::int, longitude = 2\<rparr>,
          description = ''pothole'', createdAt = ''t1'', status = Some ''Reported'',
          department = ''Unassigned''\<rparr>]\<rparr>)) \<and>
   storage (initial_state\<lparr>reports :=
        [\<lparr>id_r = ''1'', photoUri = ''p1'', location = Some \<lparr>latitude = 1::int, longitude = 2\<rparr>,
          description = ''pothole'', createdAt = ''t1'', status = Some ''Reported'',
          department = ''Unassigned''\<rparr>]\<rparr>) REPORTS_KEY = None \<and>
   storage (advanceStatus (\<lambda>_. ''[]'') Resolves ''zzz'' (initial_state\<lparr>reports :=
        [\<lparr>id_r = ''1'', photoUri = ''p1'', location = Some \<lparr>latitude = 1::int, longitude = 2\<rparr>,
          description = ''pothole'', createdAt = ''t1'', status = Some ''Reported'',
          department = ''Unassigned''\<rparr>]\<rparr>)) REPORTS_KEY \<noteq> None \<and>
   alerts (advanceStatus (\<lambda>_. ''[]'') Resolves ''zzz'' (initial_state\<lparr>reports :=
        [\<lparr>id_r = ''1'', photoUri = ''p1'', location = Some \<lparr>latitude = 1::int, longitude = 2\<rparr>,
          description = ''pothole'', createdAt = ''t1'', status = Some ''Reported'',
          department = ''Unassigned''\<rparr>]\<rparr>)) = [] \<and>
   console (advanceStatus (\<lambda>_. ''[]'') Resolves ''zzz'' (initial_state\<lparr>reports :=
        [\<lparr>id_r = ''1'', photoUri = ''p1'', location = Some \<lparr>latitude = 1::int, longitude = 2\<rparr>,
          description = ''pothole'', createdAt = ''t1'', status = Some ''Reported'',
          department = ''Unassigned''\<rparr>]\<rparr>)) = []"
  by (simp add: eval_defs)

subsection \<open>Assigning a department\<close>

lemma trim_Nil: "trim [] = []"
  by (simp add: trim_def)

text \<open>
  C7, as amended. When the text handed over by the prompt is missing, empty or blank
  after trimming, the Assign button does nothing: the state is unchanged and no error is
  signalled. Otherwise every report with the given id gets the trimmed text as its
  department, all other reports and fields stay as they were, and a write that resolves
  stores the serialised new list. Where no prompt exists the department becomes
  \<^verbatim>\<open>'Public Works'\<close>.
\<close>

theorem onPressAssign_trimmed:
  "(trim txt = [] \<longrightarrow> onPressAssign stringify w (Some (Some txt)) i s = s) \<and>
   onPressAssign stringify w (Some None) i s = s \<and>
   (trim txt \<noteq> [] \<longrightarrow>
      reports (onPressAssign stringify w (Some (Some txt)) i s) =
        map (\<lambda>r. if id_r r = i then r\<lparr>department := trim txt\<rparr> else r) (reports s) \<and>
      storage (onPressAssign stringify Resolves (Some (Some txt)) i s) REPORTS_KEY =
        Some (stringify (reports (onPressAssign stringify Resolves (Some (Some txt)) i s)))) \<and>
   reports (onPressAssign stringify w None i s) =
     map (\<lambda>r. if id_r r = i then r\<lparr>department := ''Public Works''\<rparr> else r) (reports s)"
proof -
  have nonempty: "txt \<noteq> []" if "trim txt \<noteq> []"
    using that trim_Nil by auto
  show ?thesis
    using nonempty
    by (auto simp: onPressAssign_def reports_assignDept Let_def)
      (simp add: assignDept_def Let_def saveReports_fields)
qed

text \<open>
  The theorem at a list of one report, with the text \<^verbatim>\<open>' Roads '\<close> and with a text
  of three spaces.
\<close>

theorem onPressAssign_trimmed_witness:
  "trim '' Roads '' = ''Roads'' \<and> trim ''   '' = [] \<and>
   reports (onPressAssign (\<lambda>_. ''[]'') Resolves (Some (Some '' Roads '')) ''1''
      (initial_state\<lparr>reports :=
        [\<lparr>id_r = ''1'', photoUri = ''p1'', location = Some \<lparr>latitude = 1::int, longitude = 2\<rparr>,
          description = ''pothole'', createdAt = ''t1'', status = Some ''Reported'',
          department = ''Unassigned''\<rparr>]\<rparr>)) =
        [\<lparr>id_r = ''1'', photoUri = ''p1'', location = Some \<lparr>latitude = 1::int, longitude = 2\<rparr>,
          description = ''pothole'', createdAt = ''t1'', status = Some ''Reported'',
          department = ''Roads''\<rparr>] \<and>
   reports (onPressAssign (\<lambda>_. ''[]'') Resolves (Some (Some ''   '')) ''1''
      (initial_state\<lparr>reports :=
        [\<lparr>id_r = ''1'', photoUri = ''p1'', location = Some \<lparr>latitude = 1::int, longitude = 2\<rparr>,
          description = ''pothole'', createdAt = ''t1'', status = Some ''Reported'',
          department = ''Unassigned''\<rparr>]\<rparr>)) =
        [\<lparr>id_r = ''1'', photoUri = ''p1'', location = Some \<lparr>latitude = 1::int, longitude = 2\<rparr>,
          description = ''pothole'', createdAt = ''t1'', status = Some ''Reported'',
          department = ''Unassigned''\<rparr>]"
proof -
  have t1: "trim '' Roads '' = ''Roads''" and t2: "trim ''   '' = []"
    by (simp_all add: trim_def is_ws_def)
  show ?thesis
    using onPressAssign_trimmed [of "'' Roads ''" "\<lambda>_. ''[]''" Resolves "''1''"
      "initial_state\<lparr>reports :=
        [\<lparr>id_r = ''1'', photoUri = ''p1'', location = Some \<lparr>latitude = 1::int, longitude = 2\<rparr>,
          description = ''pothole'', createdAt = ''t1'', status = Some ''Reported'',
          department = ''Unassigned''\<rparr>]\<rparr>"]
      onPressAssign_trimmed [of "''   ''" "\<lambda>_. ''[]''" Resolves "''1''"
      "initial_state\<lparr>reports :=
        [\<lparr>id_r = ''1'', photoUri = ''p1'', location = Some \<lparr>latitude = 1::int, longitude = 2\<rparr>,
          description = ''pothole'', createdAt = ''t1'', status = Some ''Reported'',
          department = ''Unassigned''\<rparr>]\<rparr>"]
    by (simp add: t1 t2 initial_state_def)
qed

text \<open>
  C7 as stated fails twice. Through the prompt, the department stored for the text
  \<^verbatim>\<open>' Roads '\<close> is \<^verbatim>\<open>'Roads'\<close>, which is not the given string. And \<^verbatim>\<open>assignDept\<close>
  itself validates nothing: called with the empty string it stores the empty string as
  the department and shows no dialog.
\<close>

theorem assign_counterexample:
  "department (reports (onPressAssign (\<lambda>_. ''[]'') Resolves (Some (Some '' Roads '')) ''1''
      (initial_state\<lparr>reports :=
        [\<lparr>id_r = ''1'', photoUri = ''p1'', location = Some \<lparr>latitude = 1::int, longitude = 2\<rparr>,
          description = ''pothole'', createdAt = ''t1'', status = Some ''Reported'',
          department = ''Unassigned''\<rparr>]\<rparr>)) ! 0) = ''Roads'' \<and>
   ''Roads'' \<noteq> '' Roads '' \<and>
   department (reports (assignDept (\<lambda>_. ''[]'') Resolves ''1'' []
      (initial_state\<lparr>reports :=
        [\<lparr>id_r = ''1'', photoUri = ''p1'', location = Some \<lparr>latitude = 1::int, longitude = 2\<rparr>,
          description = ''pothole'', createdAt = ''t1'', status = Some ''Reported'',
          department = ''Unassigned''\<rparr>]\<rparr>)) ! 0) = [] \<and>
   alerts (assignDept (\<lambda>_. ''[]'') Resolves ''1'' []
      (initial_state\<lparr>reports :=
        [\<lparr>id_r = ''1'', photoUri = ''p1'', location = Some \<lparr>latitude = 1::int, longitude = 2\<rparr>,
          description = ''pothole'', createdAt = ''t1'', status = Some ''Reported'',
          department = ''Unassigned''\<rparr>]\<rparr>)) = []"
  by (simp add: eval_defs)

subsection \<open>Submitting a complete form\<close>

text \<open>
  The decimal rendering is injective, so two ids made from different values of
  \<^verbatim>\<open>Date.now()\<close> differ.
\<close>

lemma digits_nonempty: "digits n \<noteq> []"
  by (subst digits.simps) simp

lemma digit_char_inject:
  assumes "m < 10" and "n < 10" and "''0123456789'' ! m = ''0123456789'' ! n"
  shows "m = n"
proof -
  have "distinct ''0123456789''" by simp
  moreover have "m < length ''0123456789''" and "n < length ''0123456789''"
    using assms(1,2) by simp_all
  ultimately show ?thesis
    using assms(3) nth_eq_iff_index_eq by blast
qed

lemma digits_small: "n < 10 \<Longrightarrow> digits n = [''0123456789'' ! n]"
  by (subst digits.simps) simp

lemma digits_large:
  "\<not> n < 10 \<Longrightarrow> digits n = digits (n div 10) @ [''0123456789'' ! (n mod 10)]"
  by (subst digits.simps) simp

lemma digits_inject: "digits a = digits b \<Longrightarrow> a = b"
proof (induction a arbitrary: b rule: digits.induct)
  case (1 a)
  show ?case
  proof (cases "a < 10")
    case True
    then have one: "digits b = [''0123456789'' ! a]"
      using "1.prems" by (simp add: digits_small)
    have "b < 10"
    proof (rule ccontr)
      assume "\<not> b < 10"
      then have "digits (b div 10) @ [''0123456789'' ! (b mod 10)] = [''0123456789'' ! a]"
        using one by (simp add: digits_large)
      then show False
        using digits_nonempty [of "b div 10"] by simp
    qed
    with one True show ?thesis
      by (simp add: digits_small digit_char_inject)
  next
    case False
    then have two: "digits b = digits (a div 10) @ [''0123456789'' ! (a mod 10)]"
      using "1.prems" by (simp add: digits_large)
    have "\<not> b < 10"
    proof
      assume "b < 10"
      then have "digits (a div 10) @ [''0123456789'' ! (a mod 10)] = [''0123456789'' ! b]"
        using two by (simp add: digits_small)
      then show False
        using digits_nonempty [of "a div 10"] by simp
    qed
    then have "digits (a div 10) = digits (b div 10)"
      and "''0123456789'' ! (a mod 10) = ''0123456789'' ! (b mod 10)"
      using two by (simp_all add: digits_large)
    then have "a div 10 = b div 10" and "a mod 10 = b mod 10"
      using "1.IH" [OF False] by (simp_all add: digit_char_inject)
    then show ?thesis
      by (metis div_mult_mod_eq)
  qed
qed

lemma digits_no_minus: "CHR ''-'' \<notin> set (digits n)"
proof (induction n rule: digits.induct)
  case (1 n)
  have d: "''0123456789'' ! k \<noteq> CHR ''-''" if "k < 10" for k
  proof -
    have "''0123456789'' ! k \<in> set ''0123456789''"
      using that by (intro nth_mem) simp
    then show ?thesis by auto
  qed
  show ?case
  proof (cases "n < 10")
    case True
    then show ?thesis using d [of n] by (simp add: digits_small)
  next
    case False
    then show ?thesis
      using "1.IH" d [of "n mod 10"] by (simp add: digits_large)
  qed
qed

lemma toString_inject: "toString a = toString b \<Longrightarrow> a = b"
proof -
  assume eq: "toString a = toString b"
  have neq: "CHR ''-'' # digits m \<noteq> digits n" for m n
    using digits_no_minus [of n] by (metis list.set_intros(1))
  show ?thesis
  proof (cases "a < 0")
    case True
    then show ?thesis
      using eq neq digits_inject [of "nat (- a)" "nat (- b)"]
      by (auto simp: toString_def split: if_splits)
  next
    case False
    then show ?thesis
      using eq neq [of "nat (- b)" "nat a"] digits_inject [of "nat a" "nat b"]
      by (auto simp: toString_def split: if_splits)
  qed
qed

lemma other_timestamps_fresh:
  assumes "\<forall>r \<in> set rs. \<exists>t. t \<noteq> now \<and> id_r r = toString t"
  shows "toString now \<notin> id_r ` set rs"
  using assms toString_inject by fastforce

text \<open>
  C2, as amended. In every state, with a non-empty photo, a location and a description
  that is not blank, \<^verbatim>\<open>handleSubmit\<close> succeeds and puts exactly one new report in front
  of the previous list: its status is \<^verbatim>\<open>'Reported'\<close>, its department \<^verbatim>\<open>'Unassigned'\<close>,
  and its id the decimal string of the submission time in milliseconds. That id is
  among the ids of the list exactly when a report already carries that string, and the
  ids of the new list are distinct exactly when none does and they were distinct
  before. In particular the id is new when every id of the list is the string of
  another millisecond.
\<close>

theorem handleSubmit_valid:
  assumes "photoUri_st s = Some uri" and "uri \<noteq> []" and "location_st s = Some loc"
    and "trim (description_st s) \<noteq> []"
  shows "reports (handleSubmit stringify now stamp w s) =
      \<lparr>id_r = toString now, photoUri = uri, location = Some loc,
       description = description_st s, createdAt = stamp,
       status = Some ''Reported'', department = ''Unassigned''\<rparr> # reports s \<and>
    alerts (handleSubmit stringify now stamp w s) = alerts s @ [Submitted] \<and>
    storage (handleSubmit stringify now stamp Resolves s) REPORTS_KEY =
      Some (stringify (reports (handleSubmit stringify now stamp Resolves s))) \<and>
    (id_r (hd (reports (handleSubmit stringify now stamp w s))) \<in> id_r ` set (reports s) \<longleftrightarrow>
       toString now \<in> id_r ` set (reports s)) \<and>
    (distinct (map id_r (reports (handleSubmit stringify now stamp w s))) \<longleftrightarrow>
       toString now \<notin> id_r ` set (reports s) \<and> distinct (map id_r (reports s))) \<and>
    ((\<forall>r \<in> set (reports s). \<exists>t. t \<noteq> now \<and> id_r r = toString t) \<longrightarrow>
       id_r (hd (reports (handleSubmit stringify now stamp w s))) \<notin> id_r ` set (reports s))"
proof -
  have new: "reports (handleSubmit stringify now stamp w s) =
      \<lparr>id_r = toString now, photoUri = uri, location = Some loc,
       description = description_st s, createdAt = stamp,
       status = Some ''Reported'', department = ''Unassigned''\<rparr> # reports s" for w
    using assms by (simp add: handleSubmit_def Let_def saveReports_fields)
  have dialogs: "alerts (handleSubmit stringify now stamp w s) = alerts s @ [Submitted]"
    using assms by (simp add: handleSubmit_def Let_def saveReports_fields)
  have stored: "storage (handleSubmit stringify now stamp Resolves s) REPORTS_KEY =
      Some (stringify (reports (handleSubmit stringify now stamp Resolves s)))"
    using assms by (simp add: handleSubmit_def Let_def saveReports_fields)
  have fresh: "toString now \<notin> id_r ` set (reports s)"
    if "\<forall>r \<in> set (reports s). \<exists>t. t \<noteq> now \<and> id_r r = toString t"
    using that by (rule other_timestamps_fresh)
  show ?thesis
    using dialogs stored fresh by (simp add: new)
qed

text \<open>
  The theorem at a list holding one report with id \<^verbatim>\<open>'1000'\<close>, and a complete form
  submitted at time 2000.
\<close>

theorem handleSubmit_valid_witness:
  "trim ''lamp'' \<noteq> [] \<and>
   reports (handleSubmit (\<lambda>_. ''[]'') 2000 ''t2'' Resolves
     (initial_state\<lparr>photoUri_st := Some ''p2'',
        location_st := Some \<lparr>latitude = 3, longitude = 4\<rparr>,
        description_st := ''lamp'',
        reports :=
          [\<lparr>id_r = ''1000'', photoUri = ''p1'', location = Some \<lparr>latitude = 1::int, longitude = 2\<rparr>,
            description = ''pothole'', createdAt = ''t1'', status = Some ''Acknowledged'',
            department = ''Roads''\<rparr>]\<rparr>)) =
     [\<lparr>id_r = ''2000'', photoUri = ''p2'', location = Some \<lparr>latitude = 3, longitude = 4\<rparr>,
       description = ''lamp'', createdAt = ''t2'', status = Some ''Reported'',
       department = ''Unassigned''\<rparr>,
      \<lparr>id_r = ''1000'', photoUri = ''p1'', location = Some \<lparr>latitude = 1::int, longitude = 2\<rparr>,
       description = ''pothole'', createdAt = ''t1'', status = Some ''Acknowledged'',
       department = ''Roads''\<rparr>] \<and>
   distinct (map id_r (reports (handleSubmit (\<lambda>_. ''[]'') 2000 ''t2'' Resolves
     (initial_state\<lparr>photoUri_st := Some ''p2'',
        location_st := Some \<lparr>latitude = 3, longitude = 4\<rparr>,
        description_st := ''lamp'',
        reports :=
          [\<lparr>id_r = ''1000'', photoUri = ''p1'', location = Some \<lparr>latitude = 1::int, longitude = 2\<rparr>,
            description = ''pothole'', createdAt = ''t1'', status = Some ''Acknowledged'',
            department = ''Roads''\<rparr>]\<rparr>))))"
proof -
  have ts: "toString 2000 = ''2000''"
    by code_simp
  have tr: "trim ''lamp'' \<noteq> []"
    by (simp add: trim_def is_ws_def)
  show ?thesis
    using tr handleSubmit_valid [where s =
      "initial_state\<lparr>photoUri_st := Some ''p2'',
        location_st := Some \<lparr>latitude = 3, longitude = 4\<rparr>,
        description_st := ''lamp'',
        reports :=
          [\<lparr>id_r = ''1000'', photoUri = ''p1'', location = Some \<lparr>latitude = 1::int, longitude = 2\<rparr>,
            description = ''pothole'', createdAt = ''t1'', status = Some ''Acknowledged'',
            department = ''Roads''\<rparr>]\<rparr>"
      and uri = "''p2''" and loc = "\<lparr>latitude = 3, longitude = 4\<rparr>" and now = 2000
      and stringify = "\<lambda>_. ''[]''" and stamp = "''t2''" and w = Resolves]
    by (simp add: initial_state_def ts)
qed

text \<open>
  C2 as stated fails when the clock reads the value it read for a report of the list
  (two submissions in one millisecond, or a clock set back): the same form submitted at
  time 1000 succeeds, and the list then holds the id \<^verbatim>\<open>'1000'\<close> twice.
\<close>

theorem handleSubmit_same_millisecond_counterexample:
  "map id_r (reports (initial_state\<lparr>photoUri_st := Some ''p2'',
        location_st := Some \<lparr>latitude = 3, longitude = 4\<rparr>,
        description_st := ''lamp'',
        reports :=
          [\<lparr>id_r = ''1000'', photoUri = ''p1'', location = Some \<lparr>latitude = 1::int, longitude = 2\<rparr>,
            description = ''pothole'', createdAt = ''t1'', status = Some ''Reported'',
            department = ''Unassigned''\<rparr>]\<rparr>)) = [''1000''] \<and>
   map id_r (reports (handleSubmit (\<lambda>_. ''[]'') 1000 ''t2'' Resolves
     (initial_state\<lparr>photoUri_st := Some ''p2'',
        location_st := Some \<lparr>latitude = 3, longitude = 4\<rparr>,
        description_st := ''lamp'',
        reports :=
          [\<lparr>id_r = ''1000'', photoUri = ''p1'', location = Some \<lparr>latitude = 1::int, longitude = 2\<rparr>,
            description = ''pothole'', createdAt = ''t1'', status = Some ''Reported'',
            department = ''Unassigned''\<rparr>]\<rparr>))) = [''1000'', ''1000''] \<and>
   alerts (handleSubmit (\<lambda>_. ''[]'') 1000 ''t2'' Resolves
     (initial_state\<lparr>photoUri_st := Some ''p2'',
        location_st := Some \<lparr>latitude = 3, longitude = 4\<rparr>,
        description_st := ''lamp'',
        reports :=
          [\<lparr>id_r = ''1000'', photoUri = ''p1'', location = Some \<lparr>latitude = 1::int, longitude = 2\<rparr>,
            description = ''pothole'', createdAt = ''t1'', status = Some ''Reported'',
            department = ''Unassigned''\<rparr>]\<rparr>)) = [Submitted]"
proof -
  have ts: "toString 1000 = ''1000''"
    by code_simp
  show ?thesis
    by (simp add: eval_defs ts)
qed

subsection \<open>Saving and loading\<close>







text \<open>The same for a status, a number, a location and a report.\<close>

lemma expect_null_null: "expect ''null'' (''null'' @ rest) = Some rest"
  by simp


























end
